theory Spec2Isabelle
  imports Complex_Main "HOL-Library.Multiset"
begin

section \<open>Configuration (serve.py, lines 9-13)\<close>

definition PORT :: nat where
  "PORT = 8000"

definition FILE_PREFIX :: string where
  "FILE_PREFIX = ''index''"

definition FILE_SUFFIX :: string where
  "FILE_SUFFIX = ''.html''"

definition CHECK_INTERVAL :: nat where
  "CHECK_INTERVAL = 5"

section \<open>The file name pattern\<close>

text \<open>
  File names are Python \<open>str\<close> values, modelled as \<^typ>\<open>string\<close>: lists of
  8-bit characters, read as the code points below 256. On these \<open>\d\<close> is exactly
  \<open>0\<close> .. \<open>9\<close>.

  The pattern of line 25 is
  \<^verbatim>\<open>^\<close> \<open>re.escape(FILE_PREFIX)\<close> \<^verbatim>\<open>(\d+)\<close> \<open>re.escape(FILE_SUFFIX)\<close> \<^verbatim>\<open>$\<close>,
  used with \<open>pattern.match\<close>, which anchors at position 0. \<open>re.escape\<close> turns both
  constants into literal text. Python's \<^verbatim>\<open>$\<close> (no MULTILINE flag) succeeds at the end
  of the string and also just before a line feed that is the last character.
\<close>

definition newline :: char where
  "newline = CHR 0x0A"

definition is_digit :: "char \<Rightarrow> bool" where
  "is_digit c = (48 \<le> (of_char c :: nat) \<and> (of_char c :: nat) \<le> 57)"

definition digit_value :: "char \<Rightarrow> nat" where
  "digit_value c = of_char c - 48"

text \<open>Matching literal text at the current position: the rest after it, or no match.\<close>

fun match_literal :: "string \<Rightarrow> string \<Rightarrow> string option" where
  "match_literal [] s = Some s"
| "match_literal (c # cs) [] = None"
| "match_literal (c # cs) (d # ds) = (if c = d then match_literal cs ds else None)"

text \<open>The anchor \<^verbatim>\<open>$\<close>, given the text that is left.\<close>

definition match_dollar :: "string \<Rightarrow> bool" where
  "match_dollar s = (s = [] \<or> s = [newline])"

text \<open>
  \<open>pattern.match(filename)\<close>: \<open>None\<close> for no match, otherwise \<open>match.group(1)\<close>.
  The greedy \<^verbatim>\<open>\d+\<close> takes the longest run of digits; giving a digit back cannot
  help, since the next pattern character is the literal first character of the suffix
  and would have to match a digit (lemma \<open>pattern_match_iff\<close> below states the
  matches independently of the matching order).
\<close>

definition pattern_match :: "string \<Rightarrow> string option" where
  "pattern_match filename =
     (case match_literal FILE_PREFIX filename of
        None \<Rightarrow> None
      | Some after_prefix \<Rightarrow>
          (let group1 = takeWhile is_digit after_prefix;
               after_digits = dropWhile is_digit after_prefix
           in if group1 = [] then None
              else (case match_literal FILE_SUFFIX after_digits of
                      None \<Rightarrow> None
                    | Some after_suffix \<Rightarrow>
                        if match_dollar after_suffix then Some group1 else None)))"

section \<open>Integer conversion\<close>

text \<open>
  \<open>int(s)\<close> on a string. A non-empty string of decimal digits converts to the number
  it writes in base ten. Every other string is given as \<open>None\<close>, the model's
  \<open>ValueError\<close>: Python accepts a few more forms (a sign, blanks around the number,
  single underscores between digits), none of which is a string of digits only, so
  \<open>None\<close> covers every string on which Python raises. File names are at most
  255 bytes long, far below CPython's limit of 4300 digits per conversion.
\<close>

definition py_int :: "string \<Rightarrow> int option" where
  "py_int s =
     (if s \<noteq> [] \<and> list_all is_digit s
      then Some (int (foldl (\<lambda>acc c. 10 * acc + digit_value c) 0 s))
      else None)"

section \<open>find_highest_version_file (serve.py, lines 16-40)\<close>

text \<open>
  The loop of lines 27-38 over the directory listing, with the two local variables
  \<open>max_num\<close> and \<open>target_filename\<close> as the loop state. The \<open>except ValueError:
  continue\<close> of lines 36-38 is the \<open>None\<close> branch of \<^const>\<open>py_int\<close>.
\<close>

fun scan_listing :: "string list \<Rightarrow> int \<times> string option \<Rightarrow> int \<times> string option" where
  "scan_listing [] st = st"
| "scan_listing (filename # rest) (max_num, target_filename) =
     (case pattern_match filename of
        None \<Rightarrow> scan_listing rest (max_num, target_filename)
      | Some group1 \<Rightarrow>
          (case py_int group1 of
             None \<Rightarrow> scan_listing rest (max_num, target_filename)
           | Some num \<Rightarrow>
               if num > max_num then scan_listing rest (num, Some filename)
               else scan_listing rest (max_num, target_filename)))"

text \<open>
  The function on the listing that \<open>os.listdir(".")\<close> returned: \<open>max_num = -1\<close>,
  \<open>target_filename = None\<close>, the loop, \<open>return target_filename\<close>.
\<close>

definition find_highest_version_file :: "string list \<Rightarrow> string option" where
  "find_highest_version_file listing = snd (scan_listing listing (-1, None))"

text \<open>The version number of a directory entry: \<open>None\<close> when the loop skips the entry.\<close>

definition version_of :: "string \<Rightarrow> int option" where
  "version_of filename =
     (case pattern_match filename of None \<Rightarrow> None | Some group1 \<Rightarrow> py_int group1)"

section \<open>The operating system, as one operation sees it\<close>

text \<open>
  The results of the calls an operation makes: \<open>os.listdir(".")\<close> returns the listing
  or raises, \<open>os.path.exists\<close> never raises on a string, \<open>os.path.getmtime\<close> returns
  the modification time (a float; only \<open>!=\<close> is applied to it) or raises. The three are
  independent: other processes change the directory between two calls, so a listed file
  can be gone when its time is read.
\<close>

datatype exn = OSError | TypeError | KeyboardInterrupt

record os_view =
  os_listdir :: "exn + string list"
  os_path_exists :: "string \<Rightarrow> bool"
  os_path_getmtime :: "string \<Rightarrow> exn + real"

text \<open>\<open>find_highest_version_file()\<close> as called: the listing is read first (line 27).\<close>

definition find_highest_version_file_call :: "os_view \<Rightarrow> exn + string option" where
  "find_highest_version_file_call os =
     (case os_listdir os of
        Inl e \<Rightarrow> Inl e
      | Inr listing \<Rightarrow> Inr (find_highest_version_file listing))"

section \<open>The shared serving state (serve.py, lines 47-50)\<close>

text \<open>
  The class attributes of \<open>CustomHTTPRequestHandler\<close>. The lock is not a field: every
  operation below is one critical section, run as a whole.
\<close>

record handler_class =
  target_file :: "string option"
  current_file_mtime :: real

definition class_defaults :: handler_class where
  "class_defaults = \<lparr>target_file = None, current_file_mtime = 0\<rparr>"

section \<open>do_GET (serve.py, lines 52-64)\<close>

text \<open>
  A request ends in \<open>send_error(code, message)\<close> or in the parent class's \<open>do_GET\<close>,
  which serves \<open>self.path\<close> and is outside this program. The result is: what the call
  did (or the exception it raised), \<open>self.path\<close> afterwards, the class attributes
  afterwards. \<open>os.path.exists(None)\<close> raises \<open>TypeError\<close>. \<open>send_error\<close> encodes
  the status line, which holds the message, as Latin-1: every 8-bit name encodes, so
  here it always answers. A name with a character above U+00FF, such as a digit of
  another script that \<^verbatim>\<open>\d\<close> accepts, is outside this type of names; on it
  \<open>send_error\<close> raises \<open>UnicodeEncodeError\<close> and sends nothing.
\<close>

datatype response = SendError nat string | SuperDoGET string

definition do_GET ::
    "os_view \<Rightarrow> handler_class \<Rightarrow> string \<Rightarrow> (exn + response) \<times> string \<times> handler_class" where
  "do_GET os cls path =
     (if path = ''/'' then
        (case target_file cls of
           None \<Rightarrow> (Inl TypeError, path, cls)
         | Some tf \<Rightarrow>
             if os_path_exists os tf then (Inr (SuperDoGET tf), tf, cls)
             else (Inr (SendError 404 (''File Not Found: '' @ tf)), path, cls))
      else (Inr (SuperDoGET path), path, cls))"

section \<open>check_for_updates (serve.py, lines 67-88)\<close>

text \<open>
  The \<open>elif\<close> branch of lines 84-88: the stored file is looked up again and its
  time compared. The result is: the exception that left the branch, if any; the class
  attributes afterwards; the lines printed.
\<close>

definition check_modified ::
    "os_view \<Rightarrow> handler_class \<Rightarrow> exn option \<times> handler_class \<times> string list" where
  "check_modified os cls =
     (case target_file cls of
        None \<Rightarrow> (Some TypeError, cls, [])
      | Some tf \<Rightarrow>
          if os_path_exists os tf then
            (case os_path_getmtime os tf of
               Inl e \<Rightarrow> (Some e, cls, [])
             | Inr current_mtime \<Rightarrow>
                 if current_mtime \<noteq> current_file_mtime cls then
                   (None, cls\<lparr>current_file_mtime := current_mtime\<rparr>,
                    [''File '' @ tf @ '' has been modified. Reloading...''])
                 else (None, cls, []))
          else (None, cls, []))"

text \<open>
  One pass of the loop body after the sleep (lines 75-88). \<open>if new_file and ...\<close>
  tests that \<open>new_file\<close> is neither \<open>None\<close> nor the empty string. An exception keeps
  what was assigned before it: the assignment of line 80 runs before the \<open>getmtime\<close>
  of line 81.
\<close>

definition check_once ::
    "os_view \<Rightarrow> handler_class \<Rightarrow> exn option \<times> handler_class \<times> string list" where
  "check_once os cls =
     (case find_highest_version_file_call os of
        Inl e \<Rightarrow> (Some e, cls, [])
      | Inr None \<Rightarrow> check_modified os cls
      | Inr (Some new_file) \<Rightarrow>
          if new_file \<noteq> [] \<and> Some new_file \<noteq> target_file cls then
            (let out = [''New file detected: '' @ new_file @ ''. Reloading...''];
                 cls1 = cls\<lparr>target_file := Some new_file\<rparr>
             in case os_path_getmtime os new_file of
                  Inl e \<Rightarrow> (Some e, cls1, out)
                | Inr t \<Rightarrow> (None, cls1\<lparr>current_file_mtime := t\<rparr>, out))
          else check_modified os cls)"

text \<open>
  The \<open>while True\<close> loop, run on the views of the successive ticks;
  \<open>time.sleep(CHECK_INTERVAL)\<close> separates the passes and touches no state. There is
  no \<open>try\<close> in the function: an exception of one pass leaves the loop, and the passes
  after it do not run. \<open>None\<close> as first component: the loop is still running after
  the given ticks.
\<close>

fun check_for_updates ::
    "os_view list \<Rightarrow> handler_class \<Rightarrow> exn option \<times> handler_class \<times> string list" where
  "check_for_updates [] cls = (None, cls, [])"
| "check_for_updates (os # later) cls =
     (case check_once os cls of
        (Some e, cls', out) \<Rightarrow> (Some e, cls', out)
      | (None, cls', out) \<Rightarrow>
          (case check_for_updates later cls' of
             (r, cls'', out') \<Rightarrow> (r, cls'', out @ out')))"

section \<open>The lock in one pass (serve.py, lines 75-88)\<close>

text \<open>
  The same pass, as the sequence of operations it performs on the lock, the class
  attributes and the console. The call of \<open>find_highest_version_file()\<close> (line 75)
  comes before the \<open>with\<close> statement of line 77, which acquires the lock, runs lines
  78-88 and releases the lock, also when an exception leaves the block.
\<close>

datatype lock_op =
    Call_find_highest_version_file
  | Acquire
  | Release
  | Print_line string
  | Set_target_file string
  | Set_current_file_mtime real

text \<open>Lines 84-88, inside the block.\<close>

definition check_modified_ops :: "os_view \<Rightarrow> handler_class \<Rightarrow> exn option \<times> lock_op list" where
  "check_modified_ops os cls =
     (case target_file cls of
        None \<Rightarrow> (Some TypeError, [])
      | Some tf \<Rightarrow>
          if os_path_exists os tf then
            (case os_path_getmtime os tf of
               Inl e \<Rightarrow> (Some e, [])
             | Inr current_mtime \<Rightarrow>
                 if current_mtime \<noteq> current_file_mtime cls then
                   (None,
                    [Print_line (''File '' @ tf @ '' has been modified. Reloading...''),
                     Set_current_file_mtime current_mtime])
                 else (None, []))
          else (None, []))"

text \<open>Lines 78-88, the body of the \<open>with\<close> statement, for the selector's result.\<close>

definition with_lock_body ::
    "string option \<Rightarrow> os_view \<Rightarrow> handler_class \<Rightarrow> exn option \<times> lock_op list" where
  "with_lock_body new_file_opt os cls =
     (case new_file_opt of
        None \<Rightarrow> check_modified_ops os cls
      | Some new_file \<Rightarrow>
          if new_file \<noteq> [] \<and> Some new_file \<noteq> target_file cls then
            (let announced =
                   [Print_line (''New file detected: '' @ new_file @ ''. Reloading...''),
                    Set_target_file new_file]
             in case os_path_getmtime os new_file of
                  Inl e \<Rightarrow> (Some e, announced)
                | Inr t \<Rightarrow> (None, announced @ [Set_current_file_mtime t]))
          else check_modified_ops os cls)"

definition check_once_ops :: "os_view \<Rightarrow> handler_class \<Rightarrow> exn option \<times> lock_op list" where
  "check_once_ops os cls =
     (case find_highest_version_file_call os of
        Inl e \<Rightarrow> (Some e, [Call_find_highest_version_file])
      | Inr new_file_opt \<Rightarrow>
          (case with_lock_body new_file_opt os cls of
             (r, ops) \<Rightarrow> (r, [Call_find_highest_version_file, Acquire] @ ops @ [Release])))"

text \<open>What a sequence of operations does to the class attributes, and what it prints.\<close>

fun replay :: "lock_op list \<Rightarrow> handler_class \<Rightarrow> handler_class" where
  "replay [] cls = cls"
| "replay (Set_target_file f # ops) cls = replay ops (cls\<lparr>target_file := Some f\<rparr>)"
| "replay (Set_current_file_mtime t # ops) cls = replay ops (cls\<lparr>current_file_mtime := t\<rparr>)"
| "replay (_ # ops) cls = replay ops cls"

fun printed :: "lock_op list \<Rightarrow> string list" where
  "printed [] = []"
| "printed (Print_line l # ops) = l # printed ops"
| "printed (_ # ops) = printed ops"

section \<open>The main block (serve.py, lines 91-115)\<close>

text \<open>
  What the process does, in order, and how it ends. \<open>Bind\<close> is the creation of the
  \<open>TCPServer\<close>, and \<open>bind\<close> is what it raises, if anything (the thread is started
  before, lines 104-108); \<open>serving\<close> is what \<open>serve_forever()\<close> raises,
  \<open>None\<close> while it has not returned. Only \<open>KeyboardInterrupt\<close> is caught, and only
  around \<open>serve_forever()\<close>. \<open>sys.exit(n)\<close> is \<open>Exit n\<close>; an exception nothing
  catches is \<open>Uncaught\<close>. The first serving line is printed with \<open>PORT\<close>
  formatted, that is 8000.
\<close>

datatype action = Print string | StartThread | Bind nat | ServeForever

datatype ending = Exit nat | Uncaught exn | Running

definition no_file_message :: string where
  "no_file_message =
     ''Error: Could not find any files matching '' @ [CHR 0x27] @ FILE_PREFIX @ ''*'' @
     FILE_SUFFIX @ [CHR 0x27] @ '' in the current directory.''"

definition main ::
    "os_view \<Rightarrow> exn option \<Rightarrow> exn option \<Rightarrow> handler_class \<Rightarrow>
     ending \<times> handler_class \<times> action list" where
  "main os bind serving cls =
     (case find_highest_version_file_call os of
        Inl e \<Rightarrow> (Uncaught e, cls, [])
      | Inr file_to_serve \<Rightarrow>
          (case file_to_serve of
             None \<Rightarrow> (Exit 1, cls, [Print no_file_message])
           | Some f \<Rightarrow>
               if f = [] then (Exit 1, cls, [Print no_file_message])
               else
                 (let cls1 = cls\<lparr>target_file := Some f\<rparr> in
                  case os_path_getmtime os f of
                    Inl e \<Rightarrow> (Uncaught e, cls1, [])
                  | Inr t \<Rightarrow>
                      (let cls2 = cls1\<lparr>current_file_mtime := t\<rparr> in
                       case bind of
                         Some e \<Rightarrow> (Uncaught e, cls2, [StartThread, Bind PORT])
                       | None \<Rightarrow>
                           (let started =
                                  [StartThread, Bind PORT,
                                   Print (''Serving '' @ [CHR 0x27] @ f @ [CHR 0x27] @
                                          '' at http://localhost:8000''),
                                   Print ''Press Ctrl+C to stop the server.'',
                                   ServeForever]
                            in case serving of
                                 None \<Rightarrow> (Running, cls2, started)
                               | Some KeyboardInterrupt \<Rightarrow>
                                   (Exit 0, cls2,
                                    started @ [Print (newline # ''Server stopped.'')])
                               | Some e \<Rightarrow> (Uncaught e, cls2, started))))))"

section \<open>The running process\<close>

text \<open>
  After the start the daemon thread ticks and the server answers requests. An event
  is one tick or one GET request with the view of the operating system it meets. A
  request assigns no class attribute and the watcher reads them only under the lock, so
  a request that arrives during a tick sees what it would see just before or just after
  it: each event is run as a whole. The process is the class attributes and the watcher
  thread's state:
  \<open>None\<close> while it is running, the exception that ended it otherwise. A request's
  exception is reported by the server and ends that request only. The answers are
  collected with the requested path.
\<close>

datatype event = Tick os_view | Get string os_view

record process =
  attrs :: handler_class
  watcher :: "exn option"

fun step :: "event \<Rightarrow> process \<Rightarrow> (string \<times> (exn + response)) list \<times> process" where
  "step (Tick os) p =
     (case watcher p of
        Some e \<Rightarrow> ([], p)
      | None \<Rightarrow>
          (case check_once os (attrs p) of
             (r, cls', out) \<Rightarrow> ([], \<lparr>attrs = cls', watcher = r\<rparr>)))"
| "step (Get path os) p =
     (case do_GET os (attrs p) path of
        (r, path', cls') \<Rightarrow> ([(path, r)], p\<lparr>attrs := cls'\<rparr>))"

fun run :: "event list \<Rightarrow> process \<Rightarrow> (string \<times> (exn + response)) list \<times> process" where
  "run [] p = ([], p)"
| "run (ev # evs) p =
     (case step ev p of
        (answers, p') \<Rightarrow>
          (case run evs p' of (answers', p'') \<Rightarrow> (answers @ answers', p'')))"

section \<open>The pattern and the conversion\<close>

lemma match_literal_Some_iff: "match_literal p s = Some r \<longleftrightarrow> s = p @ r"
  by (induction p s rule: match_literal.induct) auto

lemma pattern_match_digits:
  "pattern_match f = Some g \<Longrightarrow> g \<noteq> [] \<and> list_all is_digit g"
  by (auto simp: pattern_match_def Let_def list_all_iff split: option.splits if_splits dest: set_takeWhileD)

lemma not_digit_dot: "\<not> is_digit (CHR ''.'')"
  by (simp add: is_digit_def)

lemma not_digit_newline: "\<not> is_digit newline"
  by (simp add: is_digit_def newline_def)

lemma takeWhile_digits_suffix:
  "list_all is_digit g \<Longrightarrow> takeWhile is_digit (g @ FILE_SUFFIX @ r) = g"
  by (induction g) (auto simp: FILE_SUFFIX_def not_digit_dot)

lemma dropWhile_digits_suffix:
  "list_all is_digit g \<Longrightarrow> dropWhile is_digit (g @ FILE_SUFFIX @ r) = FILE_SUFFIX @ r"
  by (induction g) (auto simp: FILE_SUFFIX_def not_digit_dot)

text \<open>
  The file names the pattern accepts, stated without the matching order: the prefix, a
  non-empty run of digits, the suffix, and then nothing or one line feed. The group is
  the run of digits.
\<close>

lemma pattern_match_iff:
  "pattern_match f = Some g \<longleftrightarrow>
     g \<noteq> [] \<and> list_all is_digit g \<and>
     (f = FILE_PREFIX @ g @ FILE_SUFFIX \<or> f = FILE_PREFIX @ g @ FILE_SUFFIX @ [newline])"
proof
  assume m: "pattern_match f = Some g"
  then obtain r1 r3 where r1: "f = FILE_PREFIX @ r1"
    and g: "g = takeWhile is_digit r1" and ne: "g \<noteq> []"
    and r3: "dropWhile is_digit r1 = FILE_SUFFIX @ r3" and d: "match_dollar r3"
    by (auto simp: pattern_match_def Let_def match_literal_Some_iff split: option.splits if_splits)
  have "r1 = g @ FILE_SUFFIX @ r3"
    using g r3 takeWhile_dropWhile_id [of is_digit r1] by simp
  with r1 d pattern_match_digits [OF m] show
    "g \<noteq> [] \<and> list_all is_digit g \<and>
     (f = FILE_PREFIX @ g @ FILE_SUFFIX \<or> f = FILE_PREFIX @ g @ FILE_SUFFIX @ [newline])"
    by (auto simp: match_dollar_def)
next
  assume "g \<noteq> [] \<and> list_all is_digit g \<and>
     (f = FILE_PREFIX @ g @ FILE_SUFFIX \<or> f = FILE_PREFIX @ g @ FILE_SUFFIX @ [newline])"
  then obtain r where ne: "g \<noteq> []" and dg: "list_all is_digit g"
    and f: "f = FILE_PREFIX @ g @ FILE_SUFFIX @ r" and r: "match_dollar r"
    by (auto simp: match_dollar_def)
  have ml1: "match_literal FILE_PREFIX f = Some (g @ FILE_SUFFIX @ r)"
    by (simp add: match_literal_Some_iff f)
  have ml2: "match_literal FILE_SUFFIX (FILE_SUFFIX @ r) = Some r"
    by (simp add: match_literal_Some_iff)
  show "pattern_match f = Some g"
    by (simp add: pattern_match_def ml1 ml2 Let_def takeWhile_digits_suffix [OF dg]
        dropWhile_digits_suffix [OF dg] ne r)
qed

lemma py_int_digits:
  "g \<noteq> [] \<Longrightarrow> list_all is_digit g \<Longrightarrow> \<exists>n. py_int g = Some n \<and> 0 \<le> n"
  by (simp add: py_int_def)

lemma version_of_nonneg: "version_of f = Some v \<Longrightarrow> 0 \<le> v"
  by (auto simp: version_of_def py_int_def split: option.splits if_splits)

lemma version_of_None_iff: "version_of f = None \<longleftrightarrow> pattern_match f = None"
  using pattern_match_digits [of f] by (auto simp: version_of_def py_int_def split: option.splits)

section \<open>The selection loop\<close>

lemma scan_listing_step:
  "scan_listing (f # rest) (m, t) =
     (case version_of f of
        None \<Rightarrow> scan_listing rest (m, t)
      | Some num \<Rightarrow> if num > m then scan_listing rest (num, Some f) else scan_listing rest (m, t))"
  by (simp add: version_of_def split: option.splits)

lemma scan_listing_inv:
  "scan_listing L (m, t) = (m', t') \<Longrightarrow>
     m \<le> m' \<and>
     (\<forall>f \<in> set L. \<forall>v. version_of f = Some v \<longrightarrow> v \<le> m') \<and>
     ((m' = m \<and> t' = t) \<or>
      (m < m' \<and> t' = find (\<lambda>f. version_of f = Some m') L \<and> t' \<noteq> None))"
proof (induction L arbitrary: m t)
  case Nil
  then show ?case by simp
next
  case (Cons f L)
  show ?case
  proof (cases "version_of f")
    case None
    with Cons.prems have "scan_listing L (m, t) = (m', t')"
      by (simp add: scan_listing_step del: scan_listing.simps)
    from Cons.IH [OF this] None show ?thesis by auto
  next
    case (Some num)
    show ?thesis
    proof (cases "num > m")
      case True
      with Cons.prems Some have "scan_listing L (num, Some f) = (m', t')"
        by (simp add: scan_listing_step del: scan_listing.simps)
      from Cons.IH [OF this] Some True show ?thesis by auto
    next
      case False
      with Cons.prems Some have "scan_listing L (m, t) = (m', t')"
        by (simp add: scan_listing_step del: scan_listing.simps)
      from Cons.IH [OF this] Some False show ?thesis by auto
    qed
  qed
qed

text \<open>
  What the selector returns. A returned name is an entry the pattern accepts, no entry
  has a greater number, and it is the first entry of the listing with its number; the
  numbers compare as integers. Nothing is returned exactly when the pattern accepts no
  entry.
\<close>

lemma find_highest_Some:
  assumes "find_highest_version_file L = Some g"
  shows "\<exists>v. version_of g = Some v \<and>
             (\<forall>h \<in> set L. \<forall>w. version_of h = Some w \<longrightarrow> w \<le> v) \<and>
             find (\<lambda>f. version_of f = Some v) L = Some g"
proof -
  obtain m' where s: "scan_listing L (-1, None) = (m', Some g)"
    using assms by (cases "scan_listing L (-1, None)") (simp add: find_highest_version_file_def)
  from scan_listing_inv [OF s]
  have le: "\<forall>h \<in> set L. \<forall>w. version_of h = Some w \<longrightarrow> w \<le> m'"
    and fd: "find (\<lambda>f. version_of f = Some m') L = Some g"
    by auto
  from fd have "version_of g = Some m'"
    by (auto simp: find_Some_iff)
  with le fd show ?thesis by blast
qed

lemma find_highest_None_iff:
  "find_highest_version_file L = None \<longleftrightarrow> (\<forall>f \<in> set L. pattern_match f = None)"
proof
  assume n: "find_highest_version_file L = None"
  obtain m' where s: "scan_listing L (-1, None) = (m', None)"
    using n by (cases "scan_listing L (-1, None)") (simp add: find_highest_version_file_def)
  from scan_listing_inv [OF s]
  have m': "m' = -1" and le: "\<forall>h \<in> set L. \<forall>w. version_of h = Some w \<longrightarrow> w \<le> m'"
    by auto
  show "\<forall>f \<in> set L. pattern_match f = None"
  proof
    fix f assume f: "f \<in> set L"
    show "pattern_match f = None"
    proof (cases "version_of f")
      case None
      then show ?thesis by (simp add: version_of_None_iff)
    next
      case (Some v)
      with le f m' have "v \<le> -1" by blast
      with version_of_nonneg [OF Some] show ?thesis by simp
    qed
  qed
next
  assume a: "\<forall>f \<in> set L. pattern_match f = None"
  have "scan_listing L st = st" if "\<forall>f \<in> set L. pattern_match f = None" for st
    using that by (induction L arbitrary: st) (auto split: prod.splits)
  with a show "find_highest_version_file L = None"
    by (simp add: find_highest_version_file_def)
qed

text \<open>The examples of the description: numbers compare as integers, other names are skipped.\<close>

lemma find_highest_examples:
  "find_highest_version_file [''index9.html'', ''index10.html''] = Some ''index10.html'' \<and>
   find_highest_version_file [''index1.htmlx'', ''indexA.html'', ''index2.html''] =
     Some ''index2.html'' \<and>
   find_highest_version_file [''index7.html'', ''index007.html''] = Some ''index7.html'' \<and>
   find_highest_version_file [''index.html'', ''notes.txt''] = None \<and>
   find_highest_version_file [] = None"
  by code_simp

lemma find_highest_nonempty: "find_highest_version_file L = Some g \<Longrightarrow> g \<noteq> []"
proof -
  assume "find_highest_version_file L = Some g"
  from find_highest_Some [OF this] obtain v where "version_of g = Some v" by blast
  then have "pattern_match g \<noteq> None" by (auto simp: version_of_def split: option.splits)
  then show "g \<noteq> []" by (auto simp: pattern_match_def FILE_PREFIX_def)
qed


section \<open>One pass of the watcher, requests and the start\<close>

lemma check_once_switch:
  assumes "os_listdir os = Inr L" and "find_highest_version_file L = Some nf"
    and "Some nf \<noteq> target_file cls"
  shows "check_once os cls =
     (case os_path_getmtime os nf of
        Inl e \<Rightarrow> (Some e, cls\<lparr>target_file := Some nf\<rparr>,
                  [''New file detected: '' @ nf @ ''. Reloading...''])
      | Inr t \<Rightarrow> (None, \<lparr>target_file = Some nf, current_file_mtime = t\<rparr>,
                  [''New file detected: '' @ nf @ ''. Reloading...'']))"
  using assms find_highest_nonempty [OF assms(2)]
  by (simp add: check_once_def find_highest_version_file_call_def Let_def split: sum.splits)

lemma check_once_no_switch:
  assumes "os_listdir os = Inr L"
    and "find_highest_version_file L = None \<or> find_highest_version_file L = target_file cls"
  shows "check_once os cls = check_modified os cls"
  using assms
  by (auto simp: check_once_def find_highest_version_file_call_def split: option.splits)

text \<open>
  The two descriptions of a pass agree: its operations, replayed on the class
  attributes, give the attributes and the printed lines of \<open>check_once\<close>.
\<close>

lemma check_modified_ops_agree:
  "check_modified os cls =
     (fst (check_modified_ops os cls), replay (snd (check_modified_ops os cls)) cls,
      printed (snd (check_modified_ops os cls)))"
  by (simp add: check_modified_def check_modified_ops_def split: option.splits sum.splits)

lemma replay_Release: "replay (ops @ [Release]) cls = replay ops cls"
  by (induction ops cls rule: replay.induct) simp_all

lemma printed_Release: "printed (ops @ [Release]) = printed ops"
  by (induction ops rule: printed.induct) simp_all

lemma check_once_ops_agree:
  "check_once os cls =
     (fst (check_once_ops os cls), replay (snd (check_once_ops os cls)) cls,
      printed (snd (check_once_ops os cls)))"
  by (simp add: check_once_def check_once_ops_def with_lock_body_def Let_def
      check_modified_ops_agree [of os cls] replay_Release printed_Release
      split: option.splits sum.splits prod.splits)

lemma check_once_no_candidate:
  assumes "os_listdir os = Inr L" and "\<forall>g \<in> set L. pattern_match g = None"
    and "target_file cls = Some f" and "\<not> os_path_exists os f"
  shows "check_once os cls = (None, cls, [])"
proof -
  from assms(2) have "find_highest_version_file L = None"
    by (simp add: find_highest_None_iff)
  with assms show ?thesis
    by (simp add: check_once_def find_highest_version_file_call_def check_modified_def)
qed

lemma do_GET_attrs: "snd (snd (do_GET os cls path)) = cls"
  by (simp add: do_GET_def split: option.splits)

lemma step_Get: "step (Get path os) p = ([(path, fst (do_GET os (attrs p) path))], p)"
  using do_GET_attrs [of os "attrs p" path]
  by (cases "do_GET os (attrs p) path") simp

section \<open>The selector\<close>

text \<open>
  Claim C1. The claim reads: among the entries of the exact form prefix, digits, suffix,
  the selector returns the first with the greatest number, and none when there is no
  such entry. The part on the greatest number, the listing order and the numeric
  comparison is \<open>find_highest_Some\<close> and \<open>find_highest_None_iff\<close>, over the entries
  the pattern accepts. The pattern is anchored with \<^verbatim>\<open>$\<close>, which also accepts a name
  that ends in a line feed after the suffix. Such a name is legal on a POSIX file
  system, and the selector returns it: alone in a listing, where the claim says none,
  and against a lower-numbered name of the exact form.
\<close>

theorem selector_returns_name_with_line_feed:
  "find_highest_version_file [''index5.html'' @ [newline]] = Some (''index5.html'' @ [newline]) \<and>
   find_highest_version_file [''index5.html'', ''index6.html'' @ [newline]] =
     Some (''index6.html'' @ [newline])"
  by code_simp

section \<open>The watcher\<close>

text \<open>
  Claim C3, as stated, fails on a tick in which the selector returns a new name and the
  read of that file's modification time raises (the file was removed after the listing
  was read): line 80 has stored the new name, line 81 raises, and the stored time is
  still the old file's.
\<close>

theorem switch_torn_when_mtime_read_fails:
  "find_highest_version_file_call
     \<lparr>os_listdir = Inr [''index1.html'', ''index2.html''],
      os_path_exists = (\<lambda>f. f = ''index1.html''),
      os_path_getmtime = (\<lambda>f. if f = ''index1.html'' then Inr 100 else Inl OSError)\<rparr> =
     Inr (Some ''index2.html'') \<and>
   check_once
     \<lparr>os_listdir = Inr [''index1.html'', ''index2.html''],
      os_path_exists = (\<lambda>f. f = ''index1.html''),
      os_path_getmtime = (\<lambda>f. if f = ''index1.html'' then Inr 100 else Inl OSError)\<rparr>
     \<lparr>target_file = Some ''index1.html'', current_file_mtime = 100\<rparr> =
   (Some OSError, \<lparr>target_file = Some ''index2.html'', current_file_mtime = 100\<rparr>,
    [''New file detected: index2.html. Reloading...''])"
proof -
  have sel: "find_highest_version_file [''index1.html'', ''index2.html''] = Some ''index2.html''"
    by code_simp
  show ?thesis
    by (simp add: check_once_def find_highest_version_file_call_def sel)
qed

text \<open>
  Claim C3, amended. On every tick where the selector returns a name different from the
  stored \<open>target_file\<close> and the read of that file's modification time succeeds, the
  pass stores the new name and that time and prints the reload line. Both assignments
  lie in one critical section: after the selector's call the lock is acquired once, the
  line is printed, the two attributes are assigned, and only then the lock is released.
  The decision compares the names only: no hypothesis relates the version numbers, and
  the witness switches to a file with a lower number than the stored one.
\<close>

theorem switch_replaces_both:
  assumes "os_listdir os = Inr L" and "find_highest_version_file L = Some nf"
    and "Some nf \<noteq> target_file cls" and "os_path_getmtime os nf = Inr t"
  shows "check_once os cls =
           (None, \<lparr>target_file = Some nf, current_file_mtime = t\<rparr>,
            [''New file detected: '' @ nf @ ''. Reloading...'']) \<and>
         check_once_ops os cls =
           (None,
            [Call_find_highest_version_file, Acquire,
             Print_line (''New file detected: '' @ nf @ ''. Reloading...''),
             Set_target_file nf, Set_current_file_mtime t, Release])"
  using assms find_highest_nonempty [OF assms(2)]
  by (simp add: check_once_def check_once_ops_def with_lock_body_def
      find_highest_version_file_call_def Let_def)

theorem switch_replaces_both_witness:
  "check_once
     \<lparr>os_listdir = Inr [''index3.html'', ''style.css''],
      os_path_exists = (\<lambda>f. f = ''index3.html''),
      os_path_getmtime = (\<lambda>f. if f = ''index3.html'' then Inr 7 else Inl OSError)\<rparr>
     \<lparr>target_file = Some ''index5.html'', current_file_mtime = 9\<rparr> =
   (None, \<lparr>target_file = Some ''index3.html'', current_file_mtime = 7\<rparr>,
    [''New file detected: index3.html. Reloading...'']) \<and>
   check_once_ops
     \<lparr>os_listdir = Inr [''index3.html'', ''style.css''],
      os_path_exists = (\<lambda>f. f = ''index3.html''),
      os_path_getmtime = (\<lambda>f. if f = ''index3.html'' then Inr 7 else Inl OSError)\<rparr>
     \<lparr>target_file = Some ''index5.html'', current_file_mtime = 9\<rparr> =
   (None,
    [Call_find_highest_version_file, Acquire,
     Print_line ''New file detected: index3.html. Reloading...'',
     Set_target_file ''index3.html'', Set_current_file_mtime 7, Release])"
proof -
  have sel: "find_highest_version_file [''index3.html'', ''style.css''] = Some ''index3.html''"
    by code_simp
  show ?thesis
    using switch_replaces_both [OF _ sel, of
        "\<lparr>os_listdir = Inr [''index3.html'', ''style.css''],
          os_path_exists = (\<lambda>f. f = ''index3.html''),
          os_path_getmtime = (\<lambda>f. if f = ''index3.html'' then Inr 7 else Inl OSError)\<rparr>"
        "\<lparr>target_file = Some ''index5.html'', current_file_mtime = 9\<rparr>" 7]
    by simp
qed

text \<open>
  Claim C4. On a tick where the selector returns the stored \<open>target_file\<close>, the file
  exists and its modification time is read: when the time differs from the stored one,
  only \<open>current_file_mtime\<close> changes and the "modified" line is printed; when it is
  equal, the class attributes are unchanged and nothing is printed.
\<close>

theorem refresh_only_mtime:
  assumes "os_listdir os = Inr L" and "find_highest_version_file L = Some tf"
    and "target_file cls = Some tf" and "os_path_exists os tf"
    and "os_path_getmtime os tf = Inr t"
  shows "check_once os cls =
           (if t \<noteq> current_file_mtime cls
            then (None, cls\<lparr>current_file_mtime := t\<rparr>,
                  [''File '' @ tf @ '' has been modified. Reloading...''])
            else (None, cls, []))"
  using assms
  by (simp add: check_once_def check_modified_def find_highest_version_file_call_def)

theorem refresh_only_mtime_witness:
  "check_once
     \<lparr>os_listdir = Inr [''index1.html'', ''index2.html''],
      os_path_exists = (\<lambda>f. True), os_path_getmtime = (\<lambda>f. Inr 250)\<rparr>
     \<lparr>target_file = Some ''index2.html'', current_file_mtime = 200\<rparr> =
   (None, \<lparr>target_file = Some ''index2.html'', current_file_mtime = 250\<rparr>,
    [''File index2.html has been modified. Reloading...'']) \<and>
   check_once
     \<lparr>os_listdir = Inr [''index1.html'', ''index2.html''],
      os_path_exists = (\<lambda>f. True), os_path_getmtime = (\<lambda>f. Inr 250)\<rparr>
     \<lparr>target_file = Some ''index2.html'', current_file_mtime = 250\<rparr> =
   (None, \<lparr>target_file = Some ''index2.html'', current_file_mtime = 250\<rparr>, [])"
proof -
  have sel: "find_highest_version_file [''index1.html'', ''index2.html''] = Some ''index2.html''"
    by code_simp
  show ?thesis
    using refresh_only_mtime [OF _ sel, of
        "\<lparr>os_listdir = Inr [''index1.html'', ''index2.html''],
          os_path_exists = (\<lambda>f. True), os_path_getmtime = (\<lambda>f. Inr 250)\<rparr>"
        "\<lparr>target_file = Some ''index2.html'', current_file_mtime = 200\<rparr>" 250]
      refresh_only_mtime [OF _ sel, of
        "\<lparr>os_listdir = Inr [''index1.html'', ''index2.html''],
          os_path_exists = (\<lambda>f. True), os_path_getmtime = (\<lambda>f. Inr 250)\<rparr>"
        "\<lparr>target_file = Some ''index2.html'', current_file_mtime = 250\<rparr>" 250]
    by simp
qed

text \<open>
  Claim C5, as stated, fails: \<open>check_for_updates\<close> has no handler, so a tick whose
  directory listing raises ends the loop. The next tick, which run on its own switches
  to the new file, never runs.
\<close>

theorem failed_listing_stops_watcher:
  "check_for_updates
     [\<lparr>os_listdir = Inl OSError, os_path_exists = (\<lambda>f. True), os_path_getmtime = (\<lambda>f. Inr 1)\<rparr>,
      \<lparr>os_listdir = Inr [''index1.html'', ''index2.html''], os_path_exists = (\<lambda>f. True),
       os_path_getmtime = (\<lambda>f. Inr 2)\<rparr>]
     \<lparr>target_file = Some ''index1.html'', current_file_mtime = 1\<rparr> =
   (Some OSError, \<lparr>target_file = Some ''index1.html'', current_file_mtime = 1\<rparr>, []) \<and>
   check_for_updates
     [\<lparr>os_listdir = Inr [''index1.html'', ''index2.html''], os_path_exists = (\<lambda>f. True),
       os_path_getmtime = (\<lambda>f. Inr 2)\<rparr>]
     \<lparr>target_file = Some ''index1.html'', current_file_mtime = 1\<rparr> =
   (None, \<lparr>target_file = Some ''index2.html'', current_file_mtime = 2\<rparr>,
    [''New file detected: index2.html. Reloading...''])"
proof -
  have sel: "find_highest_version_file [''index1.html'', ''index2.html''] = Some ''index2.html''"
    by code_simp
  show ?thesis
    by (simp add: check_once_def find_highest_version_file_call_def sel)
qed

text \<open>
  Claim C5, amended. A failed check is not caught and ends the loop: the result of
  \<open>check_for_updates\<close> is that of the failing pass, whatever ticks would follow. This
  is so when the listing raises (attributes unchanged, nothing printed), when the
  selector returns a new name and the read of its modification time raises, and when no
  switch is made, the stored file exists and the read of its modification time raises
  (attributes unchanged, nothing printed); also when nothing is stored and nothing is
  found. In every other case the pass returns and the loop goes on with the next tick:
  after a switch whose read succeeds, when the stored file does not exist or has the
  stored time, and after a refresh of the time.
\<close>

theorem failed_check_ends_loop:
  "(os_listdir os = Inl e \<longrightarrow>
      check_for_updates (os # later) cls = (Some e, cls, [])) \<and>
   (os_listdir os = Inr L \<and> find_highest_version_file L = Some nf \<and>
    Some nf \<noteq> target_file cls \<and> os_path_getmtime os nf = Inl e \<longrightarrow>
      fst (check_once os cls) = Some e \<and>
      check_for_updates (os # later) cls = check_once os cls) \<and>
   (os_listdir os = Inr L \<and>
    (find_highest_version_file L = None \<or> find_highest_version_file L = target_file cls) \<and>
    target_file cls = Some tf \<and> os_path_exists os tf \<and> os_path_getmtime os tf = Inl e \<longrightarrow>
      check_for_updates (os # later) cls = (Some e, cls, [])) \<and>
   (os_listdir os = Inr L \<and> find_highest_version_file L = None \<and> target_file cls = None \<longrightarrow>
      check_for_updates (os # later) cls = (Some TypeError, cls, [])) \<and>
   (os_listdir os = Inr L \<and> find_highest_version_file L = Some nf \<and>
    Some nf \<noteq> target_file cls \<and> os_path_getmtime os nf = Inr t \<longrightarrow>
      check_for_updates (os # later) cls =
        (case check_for_updates later \<lparr>target_file = Some nf, current_file_mtime = t\<rparr> of
           (r, cls', out) \<Rightarrow>
             (r, cls', (''New file detected: '' @ nf @ ''. Reloading...'') # out))) \<and>
   (os_listdir os = Inr L \<and>
    (find_highest_version_file L = None \<or> find_highest_version_file L = target_file cls) \<and>
    target_file cls = Some tf \<and>
    (\<not> os_path_exists os tf \<or> os_path_getmtime os tf = Inr (current_file_mtime cls)) \<longrightarrow>
      check_for_updates (os # later) cls = check_for_updates later cls) \<and>
   (os_listdir os = Inr L \<and>
    (find_highest_version_file L = None \<or> find_highest_version_file L = target_file cls) \<and>
    target_file cls = Some tf \<and> os_path_exists os tf \<and> os_path_getmtime os tf = Inr t \<and>
    t \<noteq> current_file_mtime cls \<longrightarrow>
      check_for_updates (os # later) cls =
        (case check_for_updates later (cls\<lparr>current_file_mtime := t\<rparr>) of
           (r, cls', out) \<Rightarrow>
             (r, cls', (''File '' @ tf @ '' has been modified. Reloading...'') # out)))"
proof (intro conjI impI)
  assume "os_listdir os = Inl e"
  then show "check_for_updates (os # later) cls = (Some e, cls, [])"
    by (simp add: check_once_def find_highest_version_file_call_def)
next
  assume a: "os_listdir os = Inr L \<and> find_highest_version_file L = Some nf \<and>
    Some nf \<noteq> target_file cls \<and> os_path_getmtime os nf = Inl e"
  then have c: "check_once os cls =
      (Some e, cls\<lparr>target_file := Some nf\<rparr>, [''New file detected: '' @ nf @ ''. Reloading...''])"
    by (simp add: check_once_switch [of os L nf cls])
  then show "fst (check_once os cls) = Some e" by simp
  from c show "check_for_updates (os # later) cls = check_once os cls" by simp
next
  assume a: "os_listdir os = Inr L \<and>
    (find_highest_version_file L = None \<or> find_highest_version_file L = target_file cls) \<and>
    target_file cls = Some tf \<and> os_path_exists os tf \<and> os_path_getmtime os tf = Inl e"
  then have "check_once os cls = check_modified os cls"
    by (blast intro: check_once_no_switch)
  with a have "check_once os cls = (Some e, cls, [])"
    by (simp add: check_modified_def)
  then show "check_for_updates (os # later) cls = (Some e, cls, [])" by simp
next
  assume a: "os_listdir os = Inr L \<and> find_highest_version_file L = None \<and> target_file cls = None"
  then have "check_once os cls = check_modified os cls"
    by (blast intro: check_once_no_switch)
  with a have "check_once os cls = (Some TypeError, cls, [])"
    by (simp add: check_modified_def)
  then show "check_for_updates (os # later) cls = (Some TypeError, cls, [])" by simp
next
  assume a: "os_listdir os = Inr L \<and> find_highest_version_file L = Some nf \<and>
    Some nf \<noteq> target_file cls \<and> os_path_getmtime os nf = Inr t"
  then have "check_once os cls =
      (None, \<lparr>target_file = Some nf, current_file_mtime = t\<rparr>,
       [''New file detected: '' @ nf @ ''. Reloading...''])"
    by (simp add: check_once_switch [of os L nf cls])
  then show "check_for_updates (os # later) cls =
        (case check_for_updates later \<lparr>target_file = Some nf, current_file_mtime = t\<rparr> of
           (r, cls', out) \<Rightarrow>
             (r, cls', (''New file detected: '' @ nf @ ''. Reloading...'') # out))"
    by (simp split: prod.splits)
next
  assume a: "os_listdir os = Inr L \<and>
    (find_highest_version_file L = None \<or> find_highest_version_file L = target_file cls) \<and>
    target_file cls = Some tf \<and>
    (\<not> os_path_exists os tf \<or> os_path_getmtime os tf = Inr (current_file_mtime cls))"
  then have "check_once os cls = check_modified os cls"
    by (blast intro: check_once_no_switch)
  with a have "check_once os cls = (None, cls, [])"
    by (auto simp: check_modified_def)
  then show "check_for_updates (os # later) cls = check_for_updates later cls"
    by (simp split: prod.splits)
next
  assume a: "os_listdir os = Inr L \<and>
    (find_highest_version_file L = None \<or> find_highest_version_file L = target_file cls) \<and>
    target_file cls = Some tf \<and> os_path_exists os tf \<and> os_path_getmtime os tf = Inr t \<and>
    t \<noteq> current_file_mtime cls"
  then have "check_once os cls = check_modified os cls"
    by (blast intro: check_once_no_switch)
  with a have "check_once os cls =
      (None, cls\<lparr>current_file_mtime := t\<rparr>, [''File '' @ tf @ '' has been modified. Reloading...''])"
    by (simp add: check_modified_def)
  then show "check_for_updates (os # later) cls =
        (case check_for_updates later (cls\<lparr>current_file_mtime := t\<rparr>) of
           (r, cls', out) \<Rightarrow>
             (r, cls', (''File '' @ tf @ '' has been modified. Reloading...'') # out))"
    by (simp split: prod.splits)
qed

theorem failed_check_ends_loop_witness:
  "(check_for_updates
      [\<lparr>os_listdir = Inl OSError, os_path_exists = (\<lambda>f. True),
        os_path_getmtime = (\<lambda>f. Inr 1)\<rparr>,
       \<lparr>os_listdir = Inr [''index1.html'', ''index2.html''], os_path_exists = (\<lambda>f. True),
        os_path_getmtime = (\<lambda>f. Inr 2)\<rparr>]
      \<lparr>target_file = Some ''index1.html'', current_file_mtime = 1\<rparr> =
    (Some OSError, \<lparr>target_file = Some ''index1.html'', current_file_mtime = 1\<rparr>, [])) \<and>
   (fst (check_once
      \<lparr>os_listdir = Inr [''index1.html'', ''index2.html''],
        os_path_exists = (\<lambda>f. f = ''index1.html''),
        os_path_getmtime = (\<lambda>f. if f = ''index1.html'' then Inr 1 else Inl OSError)\<rparr>
      \<lparr>target_file = Some ''index1.html'', current_file_mtime = 1\<rparr>) = Some OSError \<and>
    check_for_updates
      [\<lparr>os_listdir = Inr [''index1.html'', ''index2.html''],
        os_path_exists = (\<lambda>f. f = ''index1.html''),
        os_path_getmtime = (\<lambda>f. if f = ''index1.html'' then Inr 1 else Inl OSError)\<rparr>,
       \<lparr>os_listdir = Inr [''index1.html'', ''index2.html''], os_path_exists = (\<lambda>f. True),
        os_path_getmtime = (\<lambda>f. Inr 2)\<rparr>]
      \<lparr>target_file = Some ''index1.html'', current_file_mtime = 1\<rparr> =
    check_once
      \<lparr>os_listdir = Inr [''index1.html'', ''index2.html''],
        os_path_exists = (\<lambda>f. f = ''index1.html''),
        os_path_getmtime = (\<lambda>f. if f = ''index1.html'' then Inr 1 else Inl OSError)\<rparr>
      \<lparr>target_file = Some ''index1.html'', current_file_mtime = 1\<rparr>) \<and>
   (check_for_updates
      [\<lparr>os_listdir = Inr [''index1.html''], os_path_exists = (\<lambda>f. True),
        os_path_getmtime = (\<lambda>f. Inl OSError)\<rparr>,
       \<lparr>os_listdir = Inr [''index1.html'', ''index2.html''], os_path_exists = (\<lambda>f. True),
        os_path_getmtime = (\<lambda>f. Inr 2)\<rparr>]
      \<lparr>target_file = Some ''index1.html'', current_file_mtime = 1\<rparr> =
    (Some OSError, \<lparr>target_file = Some ''index1.html'', current_file_mtime = 1\<rparr>, [])) \<and>
   (check_for_updates
      [\<lparr>os_listdir = Inr [], os_path_exists = (\<lambda>f. False),
        os_path_getmtime = (\<lambda>f. Inl OSError)\<rparr>,
       \<lparr>os_listdir = Inr [''index1.html'', ''index2.html''], os_path_exists = (\<lambda>f. True),
        os_path_getmtime = (\<lambda>f. Inr 2)\<rparr>]
      class_defaults =
    (Some TypeError, class_defaults, [])) \<and>
   (check_for_updates
      [\<lparr>os_listdir = Inr [''index1.html'', ''index2.html''], os_path_exists = (\<lambda>f. True),
        os_path_getmtime = (\<lambda>f. Inr 2)\<rparr>]
      \<lparr>target_file = Some ''index1.html'', current_file_mtime = 1\<rparr> =
    (None, \<lparr>target_file = Some ''index2.html'', current_file_mtime = 2\<rparr>,
     [''New file detected: index2.html. Reloading...''])) \<and>
   (check_for_updates
      [\<lparr>os_listdir = Inr [], os_path_exists = (\<lambda>f. False),
        os_path_getmtime = (\<lambda>f. Inl OSError)\<rparr>]
      \<lparr>target_file = Some ''index1.html'', current_file_mtime = 1\<rparr> =
    (None, \<lparr>target_file = Some ''index1.html'', current_file_mtime = 1\<rparr>, [])) \<and>
   (check_for_updates
      [\<lparr>os_listdir = Inr [''index1.html''], os_path_exists = (\<lambda>f. True),
        os_path_getmtime = (\<lambda>f. Inr 3)\<rparr>]
      \<lparr>target_file = Some ''index1.html'', current_file_mtime = 1\<rparr> =
    (None, \<lparr>target_file = Some ''index1.html'', current_file_mtime = 3\<rparr>,
     [''File index1.html has been modified. Reloading...'']))"
proof -
  have sel0: "find_highest_version_file [] = None" by code_simp
  have sel1: "find_highest_version_file [''index1.html''] = Some ''index1.html''" by code_simp
  have sel12: "find_highest_version_file [''index1.html'', ''index2.html''] = Some ''index2.html''"
    by code_simp
  have p1: "check_for_updates
      [\<lparr>os_listdir = Inl OSError, os_path_exists = (\<lambda>f. True),
        os_path_getmtime = (\<lambda>f. Inr 1)\<rparr>,
       \<lparr>os_listdir = Inr [''index1.html'', ''index2.html''], os_path_exists = (\<lambda>f. True),
        os_path_getmtime = (\<lambda>f. Inr 2)\<rparr>]
      \<lparr>target_file = Some ''index1.html'', current_file_mtime = 1\<rparr> =
    (Some OSError, \<lparr>target_file = Some ''index1.html'', current_file_mtime = 1\<rparr>, [])"
    using failed_check_ends_loop [THEN conjunct1, rule_format]
    by (simp)
  have p2: "fst (check_once
      \<lparr>os_listdir = Inr [''index1.html'', ''index2.html''],
        os_path_exists = (\<lambda>f. f = ''index1.html''),
        os_path_getmtime = (\<lambda>f. if f = ''index1.html'' then Inr 1 else Inl OSError)\<rparr>
      \<lparr>target_file = Some ''index1.html'', current_file_mtime = 1\<rparr>) = Some OSError \<and>
    check_for_updates
      [\<lparr>os_listdir = Inr [''index1.html'', ''index2.html''],
        os_path_exists = (\<lambda>f. f = ''index1.html''),
        os_path_getmtime = (\<lambda>f. if f = ''index1.html'' then Inr 1 else Inl OSError)\<rparr>,
       \<lparr>os_listdir = Inr [''index1.html'', ''index2.html''], os_path_exists = (\<lambda>f. True),
        os_path_getmtime = (\<lambda>f. Inr 2)\<rparr>]
      \<lparr>target_file = Some ''index1.html'', current_file_mtime = 1\<rparr> =
    check_once
      \<lparr>os_listdir = Inr [''index1.html'', ''index2.html''],
        os_path_exists = (\<lambda>f. f = ''index1.html''),
        os_path_getmtime = (\<lambda>f. if f = ''index1.html'' then Inr 1 else Inl OSError)\<rparr>
      \<lparr>target_file = Some ''index1.html'', current_file_mtime = 1\<rparr>"
    using failed_check_ends_loop [THEN conjunct2, THEN conjunct1, rule_format, where L = "[''index1.html'', ''index2.html'']" and nf = "''index2.html''"]
    by (simp add: sel12)
  have p3: "check_for_updates
      [\<lparr>os_listdir = Inr [''index1.html''], os_path_exists = (\<lambda>f. True),
        os_path_getmtime = (\<lambda>f. Inl OSError)\<rparr>,
       \<lparr>os_listdir = Inr [''index1.html'', ''index2.html''], os_path_exists = (\<lambda>f. True),
        os_path_getmtime = (\<lambda>f. Inr 2)\<rparr>]
      \<lparr>target_file = Some ''index1.html'', current_file_mtime = 1\<rparr> =
    (Some OSError, \<lparr>target_file = Some ''index1.html'', current_file_mtime = 1\<rparr>, [])"
    using failed_check_ends_loop [THEN conjunct2, THEN conjunct2, THEN conjunct1, rule_format, where L = "[''index1.html'']" and tf = "''index1.html''"]
    by (simp add: sel1)
  have p4: "check_for_updates
      [\<lparr>os_listdir = Inr [], os_path_exists = (\<lambda>f. False),
        os_path_getmtime = (\<lambda>f. Inl OSError)\<rparr>,
       \<lparr>os_listdir = Inr [''index1.html'', ''index2.html''], os_path_exists = (\<lambda>f. True),
        os_path_getmtime = (\<lambda>f. Inr 2)\<rparr>]
      class_defaults =
    (Some TypeError, class_defaults, [])"
    using failed_check_ends_loop [THEN conjunct2, THEN conjunct2, THEN conjunct2, THEN conjunct1, rule_format, where L = "[]"]
    by (simp add: sel0 class_defaults_def)
  have p5: "check_for_updates
      [\<lparr>os_listdir = Inr [''index1.html'', ''index2.html''], os_path_exists = (\<lambda>f. True),
        os_path_getmtime = (\<lambda>f. Inr 2)\<rparr>]
      \<lparr>target_file = Some ''index1.html'', current_file_mtime = 1\<rparr> =
    (None, \<lparr>target_file = Some ''index2.html'', current_file_mtime = 2\<rparr>,
     [''New file detected: index2.html. Reloading...''])"
    using failed_check_ends_loop [THEN conjunct2, THEN conjunct2, THEN conjunct2, THEN conjunct2, THEN conjunct1, rule_format, where L = "[''index1.html'', ''index2.html'']" and nf = "''index2.html''" and t = 2 and later = "[]"]
    by (simp add: sel12)
  have p6: "check_for_updates
      [\<lparr>os_listdir = Inr [], os_path_exists = (\<lambda>f. False),
        os_path_getmtime = (\<lambda>f. Inl OSError)\<rparr>]
      \<lparr>target_file = Some ''index1.html'', current_file_mtime = 1\<rparr> =
    (None, \<lparr>target_file = Some ''index1.html'', current_file_mtime = 1\<rparr>, [])"
    using failed_check_ends_loop [THEN conjunct2, THEN conjunct2, THEN conjunct2, THEN conjunct2, THEN conjunct2, THEN conjunct1, rule_format, where L = "[]" and tf = "''index1.html''" and later = "[]"]
    by (simp add: sel0)
  have p7: "check_for_updates
      [\<lparr>os_listdir = Inr [''index1.html''], os_path_exists = (\<lambda>f. True),
        os_path_getmtime = (\<lambda>f. Inr 3)\<rparr>]
      \<lparr>target_file = Some ''index1.html'', current_file_mtime = 1\<rparr> =
    (None, \<lparr>target_file = Some ''index1.html'', current_file_mtime = 3\<rparr>,
     [''File index1.html has been modified. Reloading...''])"
    using failed_check_ends_loop [THEN conjunct2, THEN conjunct2, THEN conjunct2, THEN conjunct2, THEN conjunct2, THEN conjunct2, rule_format, where L = "[''index1.html'']" and tf = "''index1.html''" and t = 3 and later = "[]"]
    by (simp add: sel1)
  from p1 p2 p3 p4 p5 p6 p7 show ?thesis by blast
qed

section \<open>Requests\<close>

text \<open>
  While the stored \<open>target_file\<close> does not exist, a GET request for \<open>/\<close> is answered
  with \<open>send_error(404, "File Not Found: <target>")\<close> and raises nothing, on the 8-bit
  names of this model. This goes on across all ticks whose listing holds no name the
  pattern accepts: each such tick changes nothing, requests for other paths go to the
  parent class, and the process is the same afterwards.
\<close>

lemma missing_target_404_while_nothing_accepted:
  assumes tf: "target_file (attrs p) = Some f"
    and quiet: "\<forall>ev \<in> set evs.
        (case ev of
           Get path os \<Rightarrow> \<not> os_path_exists os f
         | Tick os \<Rightarrow> \<not> os_path_exists os f \<and>
             (\<exists>L. os_listdir os = Inr L \<and> (\<forall>g \<in> set L. pattern_match g = None)))"
  shows "do_GET os (attrs p) ''/'' =
           (if os_path_exists os f then (Inr (SuperDoGET f), f, attrs p)
            else (Inr (SendError 404 (''File Not Found: '' @ f)), ''/'', attrs p)) \<and>
         run evs p =
           (concat (map (\<lambda>ev. case ev of
                           Tick os \<Rightarrow> []
                         | Get path os \<Rightarrow>
                             [(path, if path = ''/''
                                     then Inr (SendError 404 (''File Not Found: '' @ f))
                                     else Inr (SuperDoGET path))]) evs),
            p)"
proof
  show "do_GET os (attrs p) ''/'' =
           (if os_path_exists os f then (Inr (SuperDoGET f), f, attrs p)
            else (Inr (SendError 404 (''File Not Found: '' @ f)), ''/'', attrs p))"
    using tf by (simp add: do_GET_def)
next
  show "run evs p =
           (concat (map (\<lambda>ev. case ev of
                           Tick os \<Rightarrow> []
                         | Get path os \<Rightarrow>
                             [(path, if path = ''/''
                                     then Inr (SendError 404 (''File Not Found: '' @ f))
                                     else Inr (SuperDoGET path))]) evs),
            p)"
    using quiet
  proof (induction evs)
    case Nil
    then show ?case by simp
  next
    case (Cons ev evs)
    show ?case
    proof (cases ev)
      case (Tick os)
      with Cons.prems obtain L where "os_listdir os = Inr L"
        "\<forall>g \<in> set L. pattern_match g = None" "\<not> os_path_exists os f"
        by auto
      from check_once_no_candidate [OF this(1,2) tf this(3)]
      have "step ev p = ([], p)"
        by (simp add: Tick split: option.splits)
      with Cons show ?thesis by (simp add: Tick)
    next
      case (Get path os)
      with Cons.prems have "\<not> os_path_exists os f" by simp
      with tf have "step ev p =
          ([(path, if path = ''/'' then Inr (SendError 404 (''File Not Found: '' @ f))
                   else Inr (SuperDoGET path))], p)"
        by (simp add: Get do_GET_def)
      with Cons show ?thesis by (simp add: Get)
    qed
  qed
qed

text \<open>
  Claim C6. The claim reads: while the stored \<open>target_file\<close> is missing, every request
  for \<open>/\<close> is answered with a 404 that names it, until a new file matching the pattern
  appears. A name that ends in a line feed after the suffix is not of the pattern's
  form, yet the selector returns it (claim C1): when such a file appears, the next tick
  switches to it and the following request for \<open>/\<close> is handed to the parent class with
  that name. The 404 answers have stopped, and no matching file has appeared.
\<close>

theorem name_with_line_feed_ends_404:
  "run [Get ''/'' \<lparr>os_listdir = Inr [], os_path_exists = (\<lambda>f. False),
                   os_path_getmtime = (\<lambda>f. Inl OSError)\<rparr>,
        Tick \<lparr>os_listdir = Inr [''index5.html'' @ [newline]],
              os_path_exists = (\<lambda>f. f = ''index5.html'' @ [newline]),
              os_path_getmtime = (\<lambda>f. if f = ''index5.html'' @ [newline] then Inr 9
                                     else Inl OSError)\<rparr>,
        Get ''/'' \<lparr>os_listdir = Inr [''index5.html'' @ [newline]],
                   os_path_exists = (\<lambda>f. f = ''index5.html'' @ [newline]),
                   os_path_getmtime = (\<lambda>f. if f = ''index5.html'' @ [newline] then Inr 9
                                          else Inl OSError)\<rparr>]
       \<lparr>attrs = \<lparr>target_file = Some ''index4.html'', current_file_mtime = 8\<rparr>,
        watcher = None\<rparr> =
   ([(''/'', Inr (SendError 404 ''File Not Found: index4.html'')),
     (''/'', Inr (SuperDoGET (''index5.html'' @ [newline])))],
    \<lparr>attrs = \<lparr>target_file = Some (''index5.html'' @ [newline]), current_file_mtime = 9\<rparr>,
     watcher = None\<rparr>)"
proof -
  have sel: "find_highest_version_file [''index5.html'' @ [newline]] =
             Some (''index5.html'' @ [newline])"
    by code_simp
  show ?thesis
    by (simp add: do_GET_def check_once_def find_highest_version_file_call_def
        sel [simplified])
qed

text \<open>
  Claim C10. \<open>do_GET\<close> leaves the class attributes as they were, for every path and
  every state of the file system, and so does any sequence of requests with no tick in
  between. Only \<open>self.path\<close> is assigned.
\<close>

theorem do_GET_keeps_class_attributes:
  "snd (snd (do_GET os cls path)) = cls \<and>
   snd (run (map (\<lambda>(path, os). Get path os) reqs) p) = p"
proof
  show "snd (snd (do_GET os cls path)) = cls" by (rule do_GET_attrs)
next
  show "snd (run (map (\<lambda>(path, os). Get path os) reqs) p) = p"
    by (induction reqs) (auto simp: step_Get simp del: step.simps split: prod.splits)
qed

section \<open>The start and the end of the process\<close>

text \<open>
  When the listing holds no name the pattern accepts, the main block prints the
  diagnostic and exits with code 1; it starts no thread and binds no server. When the
  start succeeds and \<open>serve_forever()\<close> is interrupted, it prints the stop line and
  exits with code 0.
\<close>

lemma exit_codes_for_accepted_names:
  "(os_listdir os = Inr L \<and> (\<forall>f \<in> set L. pattern_match f = None) \<longrightarrow>
      main os bind serving cls = (Exit 1, cls, [Print no_file_message])) \<and>
   (os_listdir os = Inr L \<and> find_highest_version_file L = Some f \<and>
    os_path_getmtime os f = Inr t \<longrightarrow>
      main os None (Some KeyboardInterrupt) cls =
        (Exit 0, \<lparr>target_file = Some f, current_file_mtime = t\<rparr>,
         [StartThread, Bind PORT,
          Print (''Serving '' @ [CHR 0x27] @ f @ [CHR 0x27] @ '' at http://localhost:8000''),
          Print ''Press Ctrl+C to stop the server.'',
          ServeForever,
          Print (newline # ''Server stopped.'')]))"
proof (intro conjI impI)
  assume a: "os_listdir os = Inr L \<and> (\<forall>f \<in> set L. pattern_match f = None)"
  then have "find_highest_version_file L = None"
    by (simp add: find_highest_None_iff)
  with a show "main os bind serving cls = (Exit 1, cls, [Print no_file_message])"
    by (simp add: main_def find_highest_version_file_call_def)
next
  assume a: "os_listdir os = Inr L \<and> find_highest_version_file L = Some f \<and>
    os_path_getmtime os f = Inr t"
  then have "f \<noteq> []" by (auto dest: find_highest_nonempty)
  with a show "main os None (Some KeyboardInterrupt) cls =
        (Exit 0, \<lparr>target_file = Some f, current_file_mtime = t\<rparr>,
         [StartThread, Bind PORT,
          Print (''Serving '' @ [CHR 0x27] @ f @ [CHR 0x27] @ '' at http://localhost:8000''),
          Print ''Press Ctrl+C to stop the server.'',
          ServeForever,
          Print (newline # ''Server stopped.'')])"
    by (simp add: main_def find_highest_version_file_call_def Let_def)
qed

text \<open>
  Claim C7. The claim reads: when no file of the directory matches the naming pattern,
  the process prints the diagnostic and exits with code 1 without binding the server;
  an interrupt while serving exits with code 0. The second part is the lemma above.
  The first part fails on a directory whose only candidate is a name that ends in a
  line feed after the suffix: no file has the pattern's form, yet the selector returns
  the name (claim C1), and the main block stores it, starts the thread, binds the
  server and serves.
\<close>

theorem start_serves_name_with_line_feed:
  "main \<lparr>os_listdir = Inr [''README.md'', ''index5.html'' @ [newline]],
         os_path_exists = (\<lambda>f. True), os_path_getmtime = (\<lambda>f. Inr 5)\<rparr>
        None None class_defaults =
     (Running,
      \<lparr>target_file = Some (''index5.html'' @ [newline]), current_file_mtime = 5\<rparr>,
      [StartThread, Bind PORT,
       Print (''Serving '' @ [CHR 0x27] @ ''index5.html'' @ [newline] @ [CHR 0x27] @
              '' at http://localhost:8000''),
       Print ''Press Ctrl+C to stop the server.'',
       ServeForever])"
proof -
  have sel: "find_highest_version_file [''README.md'', ''index5.html'' @ [newline]] =
             Some (''index5.html'' @ [newline])"
    by code_simp
  show ?thesis
    by (simp add: main_def find_highest_version_file_call_def sel [simplified]
        class_defaults_def)
qed

section \<open>Order of the listing and the conversion\<close>

text \<open>
  When one entry of the listing has a number greater than that of every other entry
  the pattern accepts, the selector returns that entry for the listing and for every
  permutation of it.
\<close>

lemma accepted_maximum_order_insensitive:
  assumes perm: "mset L' = mset L"
    and f: "f \<in> set L" and v: "version_of f = Some v"
    and uniq: "\<forall>g \<in> set L. g \<noteq> f \<longrightarrow> (\<forall>w. version_of g = Some w \<longrightarrow> w < v)"
  shows "find_highest_version_file L' = find_highest_version_file L \<and>
         find_highest_version_file L = Some f"
proof -
  have res: "find_highest_version_file K = Some f" if K: "set K = set L" for K
  proof (cases "find_highest_version_file K")
    case None
    with f K have "pattern_match f = None" by (simp add: find_highest_None_iff)
    with v show ?thesis by (simp add: version_of_def)
  next
    case (Some g)
    from find_highest_Some [OF Some] obtain w where w: "version_of g = Some w"
      and le: "\<forall>h \<in> set K. \<forall>u. version_of h = Some u \<longrightarrow> u \<le> w"
      and fd: "find (\<lambda>f. version_of f = Some w) K = Some g" by blast
    from fd have gK: "g \<in> set K" by (auto simp: find_Some_iff)
    from le f K v have "v \<le> w" by blast
    with uniq gK K w have "g = f" by fastforce
    with Some show ?thesis by simp
  qed
  from perm have "set L' = set L" by (rule mset_eq_setD)
  with res show ?thesis by simp
qed

text \<open>
  Claim C8. The claim reads: when the listing holds a unique entry of the greatest
  version among those matching the pattern, every permutation of the listing gives the
  same result. A name that ends in a line feed after the suffix does not match the
  pattern's form, yet the loop reads a number from it (claim C1). Beside the one
  matching entry with the same number it decides the result by its place: the two
  orders of the listing return different names.
\<close>

theorem selector_order_matters_with_line_feed:
  "find_highest_version_file [''index5.html'', ''index5.html'' @ [newline]] =
     Some ''index5.html'' \<and>
   find_highest_version_file [''index5.html'' @ [newline], ''index5.html''] =
     Some (''index5.html'' @ [newline])"
  by code_simp

text \<open>
  Claim C9. Whenever the pattern accepts a file name, the conversion of the captured
  group succeeds and gives a non-negative integer: the \<open>except ValueError\<close> branch of
  the loop is never taken, and the selector, a total function, raises nothing.
\<close>

theorem accepted_group_converts:
  "pattern_match filename = Some group1 \<Longrightarrow> \<exists>num. py_int group1 = Some num \<and> 0 \<le> num"
  using pattern_match_digits [of filename group1] by (simp add: py_int_digits)

theorem accepted_group_converts_witness:
  "pattern_match ''index007.html'' = Some ''007'' \<and> (\<exists>num. py_int ''007'' = Some num \<and> 0 \<le> num)"
proof -
  have m: "pattern_match ''index007.html'' = Some ''007''" by code_simp
  from m accepted_group_converts [OF m] show ?thesis by simp
qed

end
